theory Spec2Isabelle
  imports Main "HOL-Library.Word"
begin

section \<open>The geometry engine\<close>

text \<open>
  \<^verbatim>\<open>algorithms.py\<close> holds three functions that call into the QGIS geometry engine
  (\<^verbatim>\<open>from qgis.core import QgsGeometry, ...\<close>). The engine is no part of the repository,
  so it is a parameter of the model: a record of the operations the three functions call,
  over a type \<open>'g\<close> of geometry values. Each field keeps the name of the method it stands
  for; \<open>truthy\<close> is the method behind Python's truth test of a geometry object
  (\<^verbatim>\<open>__bool__\<close>) and \<open>QgsGeometry\<close> is the value of a newly constructed
  \<^verbatim>\<open>QgsGeometry()\<close>. An operation is a function of the values of the geometries it is
  called on, and it returns: of what the engine computes nothing else is assumed, and
  a property that needs more says so in its hypotheses.

  A Python float is an IEEE 754 binary64 number. Nothing is computed on floats here: an
  area is passed through as the engine gave it and the literal \<^verbatim>\<open>0.0\<close> is returned as it
  is, so a float is modelled by its 64 bits, and \<^verbatim>\<open>0.0\<close> is the word of zero bits.
\<close>

type_synonym float64 = "64 word"

definition float_zero :: float64 where
  "float_zero = 0"

record 'g engine =
  intersects :: "'g \<Rightarrow> 'g \<Rightarrow> bool"
  difference :: "'g \<Rightarrow> 'g \<Rightarrow> 'g"
  isGeosValid :: "'g \<Rightarrow> bool"
  makeValid :: "'g \<Rightarrow> 'g"
  removeDuplicateNodes :: "'g \<Rightarrow> 'g"
  isEmpty :: "'g \<Rightarrow> bool"
  area :: "'g \<Rightarrow> float64"
  truthy :: "'g \<Rightarrow> bool"
  QgsGeometry :: "'g"

section \<open>Geometry objects and the store\<close>

text \<open>
  Python passes geometry objects by reference, and \<^verbatim>\<open>removeDuplicateNodes()\<close> changes
  the object it is called on. The model therefore has an explicit store: \<open>heap\<close> gives the
  value of every object, \<open>nxt\<close> is the first reference that is not in use (the objects of
  the store are the references below it), and \<open>calls\<close> is the list of the engine calls
  made so far, oldest first. \<^verbatim>\<open>difference\<close>, \<^verbatim>\<open>makeValid\<close> and
  \<^verbatim>\<open>QgsGeometry()\<close> return a new object, which the model allocates at \<open>nxt\<close>.
\<close>

type_synonym ref = nat

datatype call =
    Intersects ref ref
  | Difference ref ref
  | IsGeosValid ref
  | MakeValid ref
  | RemoveDuplicateNodes ref
  | IsEmpty ref
  | NewQgsGeometry
  | FeatureGeometry
  | Bool ref
  | Area ref

record 'g state =
  heap :: "ref \<Rightarrow> 'g"
  nxt :: ref
  calls :: "call list"

definition logged :: "call \<Rightarrow> 'g state \<Rightarrow> 'g state" where
  "logged c s = s\<lparr>calls := calls s @ [c]\<rparr>"

definition alloc :: "'g \<Rightarrow> 'g state \<Rightarrow> ref \<times> 'g state" where
  "alloc v s = (nxt s, s\<lparr>heap := (heap s)(nxt s := v), nxt := Suc (nxt s)\<rparr>)"

definition call_intersects :: "'g engine \<Rightarrow> ref \<Rightarrow> ref \<Rightarrow> 'g state \<Rightarrow> bool \<times> 'g state" where
  "call_intersects E a b s = (intersects E (heap s a) (heap s b), logged (Intersects a b) s)"

definition call_difference :: "'g engine \<Rightarrow> ref \<Rightarrow> ref \<Rightarrow> 'g state \<Rightarrow> ref \<times> 'g state" where
  "call_difference E a b s = alloc (difference E (heap s a) (heap s b)) (logged (Difference a b) s)"

definition call_isGeosValid :: "'g engine \<Rightarrow> ref \<Rightarrow> 'g state \<Rightarrow> bool \<times> 'g state" where
  "call_isGeosValid E a s = (isGeosValid E (heap s a), logged (IsGeosValid a) s)"

definition call_makeValid :: "'g engine \<Rightarrow> ref \<Rightarrow> 'g state \<Rightarrow> ref \<times> 'g state" where
  "call_makeValid E a s = alloc (makeValid E (heap s a)) (logged (MakeValid a) s)"

definition call_removeDuplicateNodes :: "'g engine \<Rightarrow> ref \<Rightarrow> 'g state \<Rightarrow> 'g state" where
  "call_removeDuplicateNodes E a s =
     (logged (RemoveDuplicateNodes a) s)\<lparr>heap := (heap s)(a := removeDuplicateNodes E (heap s a))\<rparr>"

definition call_isEmpty :: "'g engine \<Rightarrow> ref \<Rightarrow> 'g state \<Rightarrow> bool \<times> 'g state" where
  "call_isEmpty E a s = (isEmpty E (heap s a), logged (IsEmpty a) s)"

definition call_QgsGeometry :: "'g engine \<Rightarrow> 'g state \<Rightarrow> ref \<times> 'g state" where
  "call_QgsGeometry E s = alloc (QgsGeometry E) (logged NewQgsGeometry s)"

section \<open>The overlap cleaner and the artifact cleaner\<close>

text \<open>
  \<^verbatim>\<open>clean_overlap\<close>, statement by statement. The variable \<^verbatim>\<open>modified_geom\<close> is bound
  again when the repair replaces the object it names.
\<close>

definition clean_overlap :: "'g engine \<Rightarrow> ref \<Rightarrow> ref \<Rightarrow> 'g state \<Rightarrow> ref \<times> 'g state" where
  "clean_overlap E geom_to_be_clipped geom_clipper s0 =
     (let (hit, s1) = call_intersects E geom_to_be_clipped geom_clipper s0 in
      if \<not> hit then (geom_to_be_clipped, s1)
      else
        let (modified_geom, s2) = call_difference E geom_to_be_clipped geom_clipper s1;
            (valid, s3) = call_isGeosValid E modified_geom s2;
            (modified_geom, s4) =
               (if \<not> valid then call_makeValid E modified_geom s3 else (modified_geom, s3));
            s5 = call_removeDuplicateNodes E modified_geom s4;
            (empty, s6) = call_isEmpty E modified_geom s5
        in if empty then call_QgsGeometry E s6 else (modified_geom, s6))"

definition clean_geometry_artifacts :: "'g engine \<Rightarrow> ref \<Rightarrow> 'g state \<Rightarrow> ref \<times> 'g state" where
  "clean_geometry_artifacts E geometry s0 =
     (let (empty, s1) = call_isEmpty E geometry s0 in
      if empty then (geometry, s1)
      else
        let s2 = call_removeDuplicateNodes E geometry s1;
            (valid, s3) = call_isGeosValid E geometry s2
        in if \<not> valid then call_makeValid E geometry s3 else (geometry, s3))"

text \<open>The engine calls a run has added to the log.\<close>

definition new_calls :: "'g state \<Rightarrow> 'g state \<Rightarrow> call list" where
  "new_calls s s' = drop (length (calls s)) (calls s')"

section \<open>The area extractor\<close>

text \<open>
  A feature carries an optional geometry; its attributes play no part here. The accessor
  \<^verbatim>\<open>feature.geometry()\<close> yields a geometry object or Python's \<^verbatim>\<open>None\<close>. The truth
  test of \<^verbatim>\<open>None\<close> is false, the truth test of a geometry object is the engine's, and
  a method call on \<^verbatim>\<open>None\<close> raises \<^verbatim>\<open>AttributeError\<close>.
\<close>

datatype error = AttributeError

record feature =
  geometry :: "ref option"

definition call_geometry :: "feature \<Rightarrow> 'g state \<Rightarrow> ref option \<times> 'g state" where
  "call_geometry f s = (geometry f, logged FeatureGeometry s)"

fun truth :: "'g engine \<Rightarrow> ref option \<Rightarrow> 'g state \<Rightarrow> bool \<times> 'g state" where
  "truth E None s = (False, s)"
| "truth E (Some r) s = (truthy E (heap s r), logged (Bool r) s)"

fun call_area :: "'g engine \<Rightarrow> ref option \<Rightarrow> 'g state \<Rightarrow> error + float64 \<times> 'g state" where
  "call_area E None s = Inl AttributeError"
| "call_area E (Some r) s = Inr (area E (heap s r), logged (Area r) s)"

definition get_feature_area :: "'g engine \<Rightarrow> feature \<Rightarrow> 'g state \<Rightarrow> error + float64 \<times> 'g state" where
  "get_feature_area E feature s0 =
     (let (g, s1) = call_geometry feature s0;
          (present, s2) = truth E g s1
      in if present then (let (g', s3) = call_geometry feature s2 in call_area E g' s3)
         else Inr (float_zero, s2))"

section \<open>Vocabulary of the properties\<close>

text \<open>
  The difference of two geometry values after the conditional repair and the
  deduplication, as \<^verbatim>\<open>clean_overlap\<close> computes it (\<open>clean_overlap_value\<close> below relates
  the two).
\<close>

definition repaired :: "'g engine \<Rightarrow> 'g \<Rightarrow> 'g" where
  "repaired E v = (if isGeosValid E v then v else makeValid E v)"

definition cleaned_difference :: "'g engine \<Rightarrow> 'g \<Rightarrow> 'g \<Rightarrow> 'g" where
  "cleaned_difference E va vb = removeDuplicateNodes E (repaired E (difference E va vb))"

text \<open>
  None of the operations the code calls tells whether a geometry has duplicate nodes.
  The property is stated on the vertex sequence of a geometry, which a function
  \<open>vertices\<close> gives (\<^verbatim>\<open>QgsGeometry.vertices()\<close>): no two consecutive vertices coincide.
\<close>

definition has_no_duplicate_nodes :: "('g \<Rightarrow> 'p list) \<Rightarrow> 'g \<Rightarrow> bool" where
  "has_no_duplicate_nodes vertices v \<longleftrightarrow> distinct_adj (vertices v)"

text \<open>
  A function mutates its input when some run of it, on objects of the store, leaves an
  input geometry with another value than it had.
\<close>

definition clean_overlap_mutates_input :: "'g engine \<Rightarrow> bool" where
  "clean_overlap_mutates_input E \<longleftrightarrow>
     (\<exists>s a b. a < nxt s \<and> b < nxt s \<and>
        (heap (snd (clean_overlap E a b s)) a \<noteq> heap s a \<or>
         heap (snd (clean_overlap E a b s)) b \<noteq> heap s b))"

definition clean_geometry_artifacts_mutates_input :: "'g engine \<Rightarrow> bool" where
  "clean_geometry_artifacts_mutates_input E \<longleftrightarrow>
     (\<exists>s g. g < nxt s \<and> heap (snd (clean_geometry_artifacts E g s)) g \<noteq> heap s g)"

definition get_feature_area_mutates_input :: "'g engine \<Rightarrow> bool" where
  "get_feature_area_mutates_input E \<longleftrightarrow>
     (\<exists>s f r x s'. geometry f = Some r \<and> r < nxt s \<and>
        get_feature_area E f s = Inr (x, s') \<and> heap s' r \<noteq> heap s r)"

definition mutating_functions :: "'g engine \<Rightarrow> nat" where
  "mutating_functions E =
     length (filter id [clean_overlap_mutates_input E,
                        clean_geometry_artifacts_mutates_input E,
                        get_feature_area_mutates_input E])"

section \<open>A small engine for concrete runs\<close>

text \<open>
  Geometries are vertex sequences on the integer line, and \<open>Null\<close> is the geometry
  without content that \<^verbatim>\<open>QgsGeometry()\<close> constructs. Two geometries intersect when
  they share a vertex; the difference drops the clipper's vertices; a sequence is valid
  when it never steps back, so sorting repairs it; \<open>Null\<close> is neither valid nor true,
  and it is empty.
\<close>

datatype line_geom = Null | Points "int list"

fun line_intersects :: "line_geom \<Rightarrow> line_geom \<Rightarrow> bool" where
  "line_intersects (Points xs) (Points ys) = list_ex (\<lambda>x. x \<in> set ys) xs"
| "line_intersects _ _ = False"

fun line_difference :: "line_geom \<Rightarrow> line_geom \<Rightarrow> line_geom" where
  "line_difference (Points xs) (Points ys) = Points (filter (\<lambda>x. x \<notin> set ys) xs)"
| "line_difference v _ = v"

fun line_isGeosValid :: "line_geom \<Rightarrow> bool" where
  "line_isGeosValid Null = False"
| "line_isGeosValid (Points xs) = sorted xs"

fun line_makeValid :: "line_geom \<Rightarrow> line_geom" where
  "line_makeValid Null = Points []"
| "line_makeValid (Points xs) = Points (sort xs)"

fun line_removeDuplicateNodes :: "line_geom \<Rightarrow> line_geom" where
  "line_removeDuplicateNodes Null = Null"
| "line_removeDuplicateNodes (Points xs) = Points (remdups_adj xs)"

fun line_isEmpty :: "line_geom \<Rightarrow> bool" where
  "line_isEmpty Null = True"
| "line_isEmpty (Points xs) = (xs = [])"

fun line_area :: "line_geom \<Rightarrow> float64" where
  "line_area Null = 0"
| "line_area (Points xs) = of_nat (length xs)"

fun line_truthy :: "line_geom \<Rightarrow> bool" where
  "line_truthy Null = False"
| "line_truthy (Points xs) = True"

definition line_engine :: "line_geom engine" where
  "line_engine =
     \<lparr>intersects = line_intersects, difference = line_difference,
      isGeosValid = line_isGeosValid, makeValid = line_makeValid,
      removeDuplicateNodes = line_removeDuplicateNodes, isEmpty = line_isEmpty,
      area = line_area, truthy = line_truthy, QgsGeometry = Null\<rparr>"

text \<open>A store whose objects are the elements of a list, with an empty log.\<close>

definition store :: "line_geom list \<Rightarrow> line_geom state" where
  "store vs = \<lparr>heap = (\<lambda>r. if r < length vs then vs ! r else Null), nxt = length vs, calls = []\<rparr>"

fun line_vertices :: "line_geom \<Rightarrow> int list" where
  "line_vertices Null = []"
| "line_vertices (Points xs) = xs"





section \<open>What a run leaves in the store\<close>

lemmas engine_calls =
  call_intersects_def call_difference_def call_isGeosValid_def call_makeValid_def
  call_removeDuplicateNodes_def call_isEmpty_def call_QgsGeometry_def alloc_def logged_def

lemma clean_overlap_keeps_objects:
  "r < nxt s \<Longrightarrow> heap (snd (clean_overlap E a b s)) r = heap s r"
  by (simp add: clean_overlap_def engine_calls Let_def)


lemma clean_geometry_artifacts_input:
  "g < nxt s \<Longrightarrow>
   heap (snd (clean_geometry_artifacts E g s)) g =
     (if isEmpty E (heap s g) then heap s g else removeDuplicateNodes E (heap s g))"
  by (simp add: clean_geometry_artifacts_def engine_calls Let_def)

lemma get_feature_area_keeps_heap:
  "get_feature_area E f s = Inr (x, s') \<Longrightarrow> heap s' = heap s"
  by (cases "geometry f")
     (auto simp: get_feature_area_def call_geometry_def logged_def Let_def split: if_splits)

lemma line_engine_fields [simp]:
  "intersects line_engine = line_intersects"
  "difference line_engine = line_difference"
  "isGeosValid line_engine = line_isGeosValid"
  "makeValid line_engine = line_makeValid"
  "removeDuplicateNodes line_engine = line_removeDuplicateNodes"
  "isEmpty line_engine = line_isEmpty"
  "area line_engine = line_area"
  "truthy line_engine = line_truthy"
  "QgsGeometry line_engine = Null"
  by (simp_all add: line_engine_def)

lemma line_makeValid_valid: "line_isGeosValid (line_makeValid v)"
  by (cases v) simp_all

lemma line_removeDuplicateNodes_valid:
  "line_isGeosValid v \<Longrightarrow> line_isGeosValid (line_removeDuplicateNodes v)"
  by (cases v) simp_all

lemma line_removeDuplicateNodes_deduplicated:
  "has_no_duplicate_nodes line_vertices (line_removeDuplicateNodes v)"
  by (cases v) (simp_all add: has_no_duplicate_nodes_def)



lemma clean_overlap_never_mutates: "\<not> clean_overlap_mutates_input E"
  by (simp add: clean_overlap_mutates_input_def clean_overlap_keeps_objects)

lemma get_feature_area_never_mutates: "\<not> get_feature_area_mutates_input E"
  by (auto simp: get_feature_area_mutates_input_def dest: get_feature_area_keeps_heap)

lemma clean_geometry_artifacts_mutates_iff:
  "clean_geometry_artifacts_mutates_input E \<longleftrightarrow>
     (\<exists>v. \<not> isEmpty E v \<and> removeDuplicateNodes E v \<noteq> v)"
proof
  assume "clean_geometry_artifacts_mutates_input E"
  then obtain s g where "g < nxt s"
    and "heap (snd (clean_geometry_artifacts E g s)) g \<noteq> heap s g"
    by (auto simp: clean_geometry_artifacts_mutates_input_def)
  then have "\<not> isEmpty E (heap s g) \<and> removeDuplicateNodes E (heap s g) \<noteq> heap s g"
    by (simp add: clean_geometry_artifacts_input split: if_splits)
  then show "\<exists>v. \<not> isEmpty E v \<and> removeDuplicateNodes E v \<noteq> v"
    by blast
next
  assume "\<exists>v. \<not> isEmpty E v \<and> removeDuplicateNodes E v \<noteq> v"
  then obtain v where v: "\<not> isEmpty E v" "removeDuplicateNodes E v \<noteq> v"
    by blast
  let ?s = "\<lparr>heap = (\<lambda>r. v), nxt = Suc 0, calls = []\<rparr>"
  have "(0::nat) < nxt ?s"
    by simp
  moreover have "heap (snd (clean_geometry_artifacts E 0 ?s)) 0 \<noteq> heap ?s 0"
    using v by (simp add: clean_geometry_artifacts_input)
  ultimately show "clean_geometry_artifacts_mutates_input E"
    unfolding clean_geometry_artifacts_mutates_input_def by blast
qed

lemma line_engine_deduplicates:
  "\<not> isEmpty line_engine (Points [1, 1]) \<and>
   removeDuplicateNodes line_engine (Points [1, 1]) \<noteq> Points [1, 1]"
  by simp

section \<open>Properties\<close>

text \<open>
  C2. When the subject and the clipper do not intersect, \<^verbatim>\<open>clean_overlap\<close> returns the
  subject itself: the same reference, in a store where no object has changed and none
  has been made, after one engine call, \<^verbatim>\<open>intersects\<close>. No difference is attempted.
\<close>

theorem clean_overlap_disjoint_passthrough:
  "\<not> intersects E (heap s a) (heap s b) \<Longrightarrow>
   clean_overlap E a b s = (a, s\<lparr>calls := calls s @ [Intersects a b]\<rparr>) \<and>
   heap (snd (clean_overlap E a b s)) = heap s \<and>
   nxt (snd (clean_overlap E a b s)) = nxt s \<and>
   new_calls s (snd (clean_overlap E a b s)) = [Intersects a b]"
  by (simp add: clean_overlap_def call_intersects_def logged_def new_calls_def)

theorem clean_overlap_disjoint_passthrough_witness:
  "\<not> intersects line_engine (Points [1, 2]) (Points [3, 4]) \<and>
   clean_overlap line_engine 0 1 (store [Points [1, 2], Points [3, 4]]) =
     (0, (store [Points [1, 2], Points [3, 4]])\<lparr>calls := [Intersects 0 1]\<rparr>) \<and>
   heap (snd (clean_overlap line_engine 0 1 (store [Points [1, 2], Points [3, 4]]))) 0 =
     Points [1, 2]"
  using clean_overlap_disjoint_passthrough
          [of line_engine "store [Points [1, 2], Points [3, 4]]" 0 1]
  by (simp add: store_def)

text \<open>
  C5. On an empty geometry \<^verbatim>\<open>clean_geometry_artifacts\<close> returns the object it was given,
  with the store as it was: the only engine call is \<^verbatim>\<open>isEmpty\<close>, so nothing is
  deduplicated, checked for validity or repaired.
\<close>

theorem clean_geometry_artifacts_empty_unchanged:
  "isEmpty E (heap s g) \<Longrightarrow>
   clean_geometry_artifacts E g s = (g, s\<lparr>calls := calls s @ [IsEmpty g]\<rparr>) \<and>
   heap (snd (clean_geometry_artifacts E g s)) = heap s \<and>
   nxt (snd (clean_geometry_artifacts E g s)) = nxt s \<and>
   new_calls s (snd (clean_geometry_artifacts E g s)) = [IsEmpty g]"
  by (simp add: clean_geometry_artifacts_def call_isEmpty_def logged_def new_calls_def)

theorem clean_geometry_artifacts_empty_unchanged_witness:
  "isEmpty line_engine (Points []) \<and>
   clean_geometry_artifacts line_engine 0 (store [Points []]) =
     (0, (store [Points []])\<lparr>calls := [IsEmpty 0]\<rparr>) \<and>
   heap (snd (clean_geometry_artifacts line_engine 0 (store [Points []]))) 0 = Points []"
  using clean_geometry_artifacts_empty_unchanged [of line_engine "store [Points []]" 0]
  by (simp add: store_def)

text \<open>
  C3. When the two geometries intersect and their difference, repaired if it was invalid
  and then deduplicated, is empty, \<^verbatim>\<open>clean_overlap\<close> returns a new object whose value
  is that of \<^verbatim>\<open>QgsGeometry()\<close>: it is made by the last engine call of the run, it is
  no object of the store the run started from, and it is not the object that holds the
  computed difference, which sits right before it.
\<close>

theorem clean_overlap_empty_result_canonical:
  assumes "intersects E (heap s a) (heap s b)"
    and "isEmpty E (cleaned_difference E (heap s a) (heap s b))"
  shows "case clean_overlap E a b s of (r, s') \<Rightarrow>
           heap s' r = QgsGeometry E \<and> nxt s < r \<and> nxt s' = Suc r \<and>
           heap s' (r - 1) = cleaned_difference E (heap s a) (heap s b) \<and>
           last (calls s') = NewQgsGeometry"
  using assms
  by (cases "isGeosValid E (difference E (heap s a) (heap s b))")
     (simp_all add: clean_overlap_def engine_calls Let_def cleaned_difference_def repaired_def)

theorem clean_overlap_empty_result_canonical_witness:
  "intersects line_engine (Points [1, 2]) (Points [1, 2, 3]) \<and>
   isEmpty line_engine (cleaned_difference line_engine (Points [1, 2]) (Points [1, 2, 3])) \<and>
   (case clean_overlap line_engine 0 1 (store [Points [1, 2], Points [1, 2, 3]]) of
      (r, s') \<Rightarrow> r = 3 \<and> heap s' r = Null \<and> heap s' 2 = Points [] \<and>
                 last (calls s') = NewQgsGeometry)"
  using clean_overlap_empty_result_canonical
          [of line_engine "store [Points [1, 2], Points [1, 2, 3]]" 0 1]
  by (simp add: store_def cleaned_difference_def repaired_def clean_overlap_def engine_calls
        Let_def)




text \<open>
  C7. The two cleaners run their steps in opposite orders. On a geometry that is not
  empty, \<^verbatim>\<open>clean_geometry_artifacts\<close> deduplicates the object it is given whatever the
  geometry is, then tests the validity of the deduplicated geometry and repairs it only
  if that test fails: the result is the repair-if-invalid of the deduplicated input. On
  two geometries that intersect, \<^verbatim>\<open>clean_overlap\<close> tests the validity of the difference,
  repairs it only if that test fails, and only then deduplicates: the object it computes
  holds the deduplication of the repaired-if-invalid difference. The engine calls are
  logged in these orders.
\<close>

theorem cleaners_opposite_order:
  "(\<not> isEmpty E (heap s g) \<longrightarrow>
      (case clean_geometry_artifacts E g s of (r, s') \<Rightarrow>
         heap s' r = repaired E (removeDuplicateNodes E (heap s g)) \<and>
         (g < nxt s \<longrightarrow> heap s' g = removeDuplicateNodes E (heap s g)) \<and>
         r = (if isGeosValid E (removeDuplicateNodes E (heap s g)) then g else nxt s) \<and>
         new_calls s s' =
           [IsEmpty g, RemoveDuplicateNodes g, IsGeosValid g] @
           (if isGeosValid E (removeDuplicateNodes E (heap s g)) then [] else [MakeValid g]))) \<and>
   (intersects E (heap s a) (heap s b) \<longrightarrow>
      (case clean_overlap E a b s of (r, s') \<Rightarrow>
         heap s' (if isGeosValid E (difference E (heap s a) (heap s b)) then nxt s
                  else Suc (nxt s)) =
           removeDuplicateNodes E (repaired E (difference E (heap s a) (heap s b))) \<and>
         (\<not> isEmpty E (cleaned_difference E (heap s a) (heap s b)) \<longrightarrow>
            heap s' r = removeDuplicateNodes E (repaired E (difference E (heap s a) (heap s b)))) \<and>
         (\<not> isGeosValid E (difference E (heap s a) (heap s b)) \<longrightarrow>
            heap s' (nxt s) = difference E (heap s a) (heap s b)) \<and>
         new_calls s s' =
           [Intersects a b, Difference a b, IsGeosValid (nxt s)] @
           (if isGeosValid E (difference E (heap s a) (heap s b))
            then [RemoveDuplicateNodes (nxt s), IsEmpty (nxt s)]
            else [MakeValid (nxt s), RemoveDuplicateNodes (Suc (nxt s)), IsEmpty (Suc (nxt s))]) @
           (if isEmpty E (cleaned_difference E (heap s a) (heap s b)) then [NewQgsGeometry]
            else [])))"
proof (intro conjI impI)
  assume "\<not> isEmpty E (heap s g)"
  then show "case clean_geometry_artifacts E g s of (r, s') \<Rightarrow>
         heap s' r = repaired E (removeDuplicateNodes E (heap s g)) \<and>
         (g < nxt s \<longrightarrow> heap s' g = removeDuplicateNodes E (heap s g)) \<and>
         r = (if isGeosValid E (removeDuplicateNodes E (heap s g)) then g else nxt s) \<and>
         new_calls s s' =
           [IsEmpty g, RemoveDuplicateNodes g, IsGeosValid g] @
           (if isGeosValid E (removeDuplicateNodes E (heap s g)) then [] else [MakeValid g])"
    by (cases "isGeosValid E (removeDuplicateNodes E (heap s g))")
       (simp_all add: clean_geometry_artifacts_def engine_calls Let_def new_calls_def
          repaired_def)
next
  assume "intersects E (heap s a) (heap s b)"
  then show "case clean_overlap E a b s of (r, s') \<Rightarrow>
         heap s' (if isGeosValid E (difference E (heap s a) (heap s b)) then nxt s
                  else Suc (nxt s)) =
           removeDuplicateNodes E (repaired E (difference E (heap s a) (heap s b))) \<and>
         (\<not> isEmpty E (cleaned_difference E (heap s a) (heap s b)) \<longrightarrow>
            heap s' r = removeDuplicateNodes E (repaired E (difference E (heap s a) (heap s b)))) \<and>
         (\<not> isGeosValid E (difference E (heap s a) (heap s b)) \<longrightarrow>
            heap s' (nxt s) = difference E (heap s a) (heap s b)) \<and>
         new_calls s s' =
           [Intersects a b, Difference a b, IsGeosValid (nxt s)] @
           (if isGeosValid E (difference E (heap s a) (heap s b))
            then [RemoveDuplicateNodes (nxt s), IsEmpty (nxt s)]
            else [MakeValid (nxt s), RemoveDuplicateNodes (Suc (nxt s)), IsEmpty (Suc (nxt s))]) @
           (if isEmpty E (cleaned_difference E (heap s a) (heap s b)) then [NewQgsGeometry]
            else [])"
    by (cases "isGeosValid E (difference E (heap s a) (heap s b))")
       (simp_all add: clean_overlap_def engine_calls Let_def new_calls_def
          cleaned_difference_def repaired_def)
qed

text \<open>
  The witness: the same three vertices go through both orders and come out differently.
  Deduplicating \<open>[1, 2, 1]\<close> changes nothing and the repair then sorts it into
  \<open>[1, 1, 2]\<close>; repairing first and deduplicating afterwards gives \<open>[1, 2]\<close>.
\<close>

theorem cleaners_opposite_order_witness:
  "\<not> isEmpty line_engine (Points [1, 2, 1]) \<and>
   (case clean_geometry_artifacts line_engine 0 (store [Points [1, 2, 1]]) of
      (r, s') \<Rightarrow> heap s' r = Points [1, 1, 2] \<and> heap s' 0 = Points [1, 2, 1] \<and> r = 1 \<and>
                 new_calls (store [Points [1, 2, 1]]) s' =
                   [IsEmpty 0, RemoveDuplicateNodes 0, IsGeosValid 0, MakeValid 0]) \<and>
   intersects line_engine (Points [1, 2, 1, 5]) (Points [5]) \<and>
   difference line_engine (Points [1, 2, 1, 5]) (Points [5]) = Points [1, 2, 1] \<and>
   (case clean_overlap line_engine 0 1 (store [Points [1, 2, 1, 5], Points [5]]) of
      (r, s') \<Rightarrow> heap s' r = Points [1, 2] \<and> r = 3 \<and> heap s' 2 = Points [1, 2, 1] \<and>
                 new_calls (store [Points [1, 2, 1, 5], Points [5]]) s' =
                   [Intersects 0 1, Difference 0 1, IsGeosValid 2, MakeValid 2,
                    RemoveDuplicateNodes 3, IsEmpty 3])"
  using cleaners_opposite_order [of line_engine "store [Points [1, 2, 1]]" 0 0 0]
    cleaners_opposite_order [of line_engine "store [Points [1, 2, 1, 5], Points [5]]" 0 0 1]
  by (simp add: store_def cleaned_difference_def repaired_def case_prod_beta
        clean_geometry_artifacts_def clean_overlap_def engine_calls Let_def)

text \<open>
  C9. \<^verbatim>\<open>clean_overlap\<close> changes neither of its arguments, nor any other object of the
  store it starts from: every \<^verbatim>\<open>removeDuplicateNodes\<close> call of the run is on an object
  that the run itself has made (the difference, or its repair).
\<close>

theorem clean_overlap_inputs_unmutated:
  assumes "a < nxt s" and "b < nxt s"
  shows "case clean_overlap E a b s of (r, s') \<Rightarrow>
           heap s' a = heap s a \<and> heap s' b = heap s b \<and>
           (\<forall>x<nxt s. heap s' x = heap s x) \<and>
           (\<forall>x. RemoveDuplicateNodes x \<in> set (new_calls s s') \<longrightarrow> nxt s \<le> x \<and> x < nxt s')"
  using assms
  by (simp add: clean_overlap_def engine_calls Let_def new_calls_def)

theorem clean_overlap_inputs_unmutated_witness:
  "(0::nat) < 2 \<and> (1::nat) < 2 \<and>
   removeDuplicateNodes line_engine (Points [1, 1, 2]) = Points [1, 2] \<and>
   (case clean_overlap line_engine 0 1 (store [Points [1, 1, 2], Points [2, 2]]) of
      (r, s') \<Rightarrow> heap s' 0 = Points [1, 1, 2] \<and> heap s' 1 = Points [2, 2] \<and>
                 heap s' r = Points [1])"
  using clean_overlap_inputs_unmutated
          [of 0 "store [Points [1, 1, 2], Points [2, 2]]" 1 line_engine]
  by (simp add: store_def clean_overlap_def engine_calls Let_def)




text \<open>
  C4. When the accessor yields a geometry object that is true, \<^verbatim>\<open>get_feature_area\<close>
  returns what the engine's \<^verbatim>\<open>area\<close> gives for that geometry. When the accessor yields
  \<^verbatim>\<open>None\<close>, it returns the float \<^verbatim>\<open>0.0\<close>: no method is called on the missing geometry
  and no error is raised. For no feature at all does the function raise an error.
\<close>

theorem get_feature_area_present_or_absent:
  "(geometry f = Some r \<and> truthy E (heap s r) \<longrightarrow>
      get_feature_area E f s =
        Inr (area E (heap s r),
             s\<lparr>calls := calls s @ [FeatureGeometry, Bool r, FeatureGeometry, Area r]\<rparr>)) \<and>
   (geometry f = None \<longrightarrow>
      get_feature_area E f s = Inr (float_zero, s\<lparr>calls := calls s @ [FeatureGeometry]\<rparr>)) \<and>
   (\<exists>x s'. get_feature_area E f s = Inr (x, s'))"
  by (cases "geometry f")
     (simp_all add: get_feature_area_def call_geometry_def logged_def Let_def)

theorem get_feature_area_present_or_absent_witness:
  "truthy line_engine (Points [4, 5, 6]) \<and>
   get_feature_area line_engine \<lparr>geometry = Some 0\<rparr> (store [Points [4, 5, 6]]) =
     Inr (3, (store [Points [4, 5, 6]])
               \<lparr>calls := [FeatureGeometry, Bool 0, FeatureGeometry, Area 0]\<rparr>) \<and>
   get_feature_area line_engine \<lparr>geometry = None\<rparr> (store [Points [4, 5, 6]]) =
     Inr (0, (store [Points [4, 5, 6]])\<lparr>calls := [FeatureGeometry]\<rparr>)"
  using get_feature_area_present_or_absent
          [of "\<lparr>geometry = Some 0\<rparr>" 0 line_engine "store [Points [4, 5, 6]]"]
    get_feature_area_present_or_absent
          [of "\<lparr>geometry = None\<rparr>" 0 line_engine "store [Points [4, 5, 6]]"]
  by (simp add: store_def float_zero_def)

text \<open>
  C10. When the accessor yields a geometry object that is false (for \<open>line_engine\<close>,
  the geometry without content), \<^verbatim>\<open>get_feature_area\<close> returns \<^verbatim>\<open>0.0\<close> and never asks
  the engine for the area of that geometry: the truth test treats it as it treats a
  missing geometry.
\<close>

theorem get_feature_area_falsy_geometry:
  "geometry f = Some r \<Longrightarrow> \<not> truthy E (heap s r) \<Longrightarrow>
   get_feature_area E f s =
     Inr (float_zero, s\<lparr>calls := calls s @ [FeatureGeometry, Bool r]\<rparr>)"
  by (simp add: get_feature_area_def call_geometry_def logged_def Let_def)

theorem get_feature_area_falsy_geometry_witness:
  "\<not> truthy line_engine Null \<and>
   get_feature_area line_engine \<lparr>geometry = Some 0\<rparr> (store [Null]) =
     Inr (0, (store [Null])\<lparr>calls := [FeatureGeometry, Bool 0]\<rparr>)"
  using get_feature_area_falsy_geometry [of "\<lparr>geometry = Some 0\<rparr>" 0 line_engine "store [Null]"]
  by (simp add: store_def float_zero_def)

text \<open>
  C8. It is not two of the three functions that change an input geometry in place. On
  \<open>line_engine\<close>, whose deduplication does change geometries, the count is not two.
\<close>

theorem two_functions_mutate_counterexample:
  "mutating_functions line_engine \<noteq> 2"
  by (simp add: mutating_functions_def clean_overlap_never_mutates
        get_feature_area_never_mutates)

text \<open>
  C8, amended. One function at most changes its input geometry in place:
  \<^verbatim>\<open>clean_geometry_artifacts\<close>, which deduplicates the object it is given, and does change
  it exactly when the engine's deduplication changes some geometry that is not empty.
  \<^verbatim>\<open>clean_overlap\<close> deduplicates an object of its own making and
  \<^verbatim>\<open>get_feature_area\<close> changes nothing.
\<close>

theorem only_clean_geometry_artifacts_mutates_input:
  "\<not> clean_overlap_mutates_input E \<and> \<not> get_feature_area_mutates_input E \<and>
   (clean_geometry_artifacts_mutates_input E \<longleftrightarrow>
      (\<exists>v. \<not> isEmpty E v \<and> removeDuplicateNodes E v \<noteq> v)) \<and>
   mutating_functions E = (if \<exists>v. \<not> isEmpty E v \<and> removeDuplicateNodes E v \<noteq> v then 1 else 0)"
  using clean_geometry_artifacts_mutates_iff [of E]
  by (simp add: mutating_functions_def clean_overlap_never_mutates
        get_feature_area_never_mutates)

theorem only_clean_geometry_artifacts_mutates_input_witness:
  "clean_geometry_artifacts_mutates_input line_engine \<and> mutating_functions line_engine = 1"
proof -
  have "\<exists>v. \<not> isEmpty line_engine v \<and> removeDuplicateNodes line_engine v \<noteq> v"
    using line_engine_deduplicates by blast
  with only_clean_geometry_artifacts_mutates_input [of line_engine] show ?thesis
    by simp
qed

end
